theory Spec2Isabelle
  imports Main "HOL-Library.Word"
begin

section \<open>Python values handled by \<open>packers.py\<close>\<close>

text \<open>
  The module is dynamically typed: \<open>encode\<close> inspects its argument with
  \<open>isinstance\<close> and reads attributes, \<open>decode\<close> looks keys up in a dict.
  The embedding keeps that shape. A Python object is either a primitive, a container,
  a NumPy array (its dtype, its shape and its memory), an \<open>ExtType\<close>, or an instance:
  the list of classes it is an instance of together with its attribute dictionary.
\<close>

type_synonym byte = "8 word"

datatype tunit = NS | US

datatype dtype =
    Object | Category | Bool
  | Int8 | Int16 | Int32 | Int64
  | UInt8 | UInt16 | UInt32 | UInt64
  | Float32 | Float64 | Complex64 | Complex128
  | Datetime64 tunit | Timedelta64 tunit
  | DatetimeTZ string

datatype pyclass =
    Cls_Index | Cls_RangeIndex | Cls_PeriodIndex | Cls_DatetimeIndex | Cls_MultiIndex
  | Cls_Int64Index | Cls_Float64Index | Cls_CategoricalIndex
  | Cls_Categorical | Cls_Series | Cls_NDFrame | Cls_DataFrame
  | Cls_datetime | Cls_date | Cls_datetime64 | Cls_timedelta | Cls_timedelta64
  | Cls_NaTType | Cls_Timestamp | Cls_Period
  | Cls_ndarray | Cls_number | Cls_complex | Cls_tzinfo | Cls_DateOffset
  | Cls_BlockManager | Cls_Block string | Cls_user string

text \<open>
  The module only ever takes the \<open>repr\<close> of a float and parses it back, so a float
  is kept as its sign bit and the decimal literal of its magnitude: \<open>inf\<close>, \<open>nan\<close>,
  or integer digits, fraction digits and an optional exponent (\<open>True\<close> for a negative
  one). \<open>1.5e-07\<close> is \<open>Dec ''1'' ''5'' (Some (True, ''07''))\<close>.
\<close>

datatype fmag = Inf | NaN | Dec string string "(bool \<times> string) option"

datatype pyfloat = PyFloat (fsign: bool) (fmag: fmag)

datatype pyobj =
    PNone
  | PBool bool
  | PInt int
  | PFloat pyfloat
  | PComplex pyfloat pyfloat
  | PStr string
  | PBytes "byte list"
  | PTuple "pyobj list"
  | PList "pyobj list"
  | PDict "(string \<times> pyobj) list"
  | ExtType nat "byte list"
  | Ndarray dtype "nat list" "byte list"
  | NdarrayObj "nat list" "pyobj list"
  | Instance "pyclass list" "(string \<times> pyobj) list"

datatype pyerr =
    ImportError string
  | ValueError string
  | KeyError string
  | AttributeError string
  | TypeError string
  | ZlibError
  | Exception_cannot_encode

text \<open>
  What the module takes from its surroundings: which compression libraries were
  importable, the compressors themselves, whether \<open>_move_into_mutable_buffer\<close> can take
  over the bytes object a decompressor returned (it raises \<open>BadMove\<close> when another
  reference to that object exists), \<open>_is_pandas_legacy_version\<close>, and \<open>extern\<close>:
  the library functions and constructors whose results the development leaves open
  (\<open>dateutil.parser.parse\<close>, the NumPy scalar types, the pandas constructors other than
  the ones modelled below), called by name with their arguments.
\<close>

record env =
  zlib_installed :: bool
  blosc_installed :: bool
  zlib_compress :: "byte list \<Rightarrow> byte list"
  zlib_decompress :: "byte list \<Rightarrow> pyerr + byte list"
  blosc_compress :: "nat \<Rightarrow> byte list \<Rightarrow> byte list"
  blosc_decompress :: "byte list \<Rightarrow> pyerr + byte list"
  move_succeeds :: "byte list \<Rightarrow> bool"
  is_pandas_legacy_version :: bool
  extern :: "string \<Rightarrow> pyobj list \<Rightarrow> pyerr + pyobj"

datatype warning = PerformanceWarning

subsection \<open>Errors as values\<close>

definition bind :: "pyerr + 'a \<Rightarrow> ('a \<Rightarrow> pyerr + 'b) \<Rightarrow> pyerr + 'b" where
  "bind m f = (case m of Inl e \<Rightarrow> Inl e | Inr x \<Rightarrow> f x)"

definition check_zlib :: "env \<Rightarrow> pyerr + unit" where
  "check_zlib E = (if zlib_installed E then Inr () else Inl (ImportError ''zlib is not installed''))"

definition check_blosc :: "env \<Rightarrow> pyerr + unit" where
  "check_blosc E = (if blosc_installed E then Inr () else Inl (ImportError ''blosc is not installed''))"

subsection \<open>dtypes\<close>

fun itemsize :: "dtype \<Rightarrow> nat" where
  "itemsize Bool = 1"
| "itemsize Int8 = 1"
| "itemsize UInt8 = 1"
| "itemsize Int16 = 2"
| "itemsize UInt16 = 2"
| "itemsize Int32 = 4"
| "itemsize UInt32 = 4"
| "itemsize Float32 = 4"
| "itemsize Complex128 = 16"
| "itemsize _ = 8"

fun is_categorical_dtype :: "dtype \<Rightarrow> bool" where
  "is_categorical_dtype Category = True"
| "is_categorical_dtype _ = False"

fun is_object_dtype :: "dtype \<Rightarrow> bool" where
  "is_object_dtype Object = True"
| "is_object_dtype _ = False"

fun needs_i8_conversion :: "dtype \<Rightarrow> bool" where
  "needs_i8_conversion (Datetime64 _) = True"
| "needs_i8_conversion (Timedelta64 _) = True"
| "needs_i8_conversion (DatetimeTZ _) = True"
| "needs_i8_conversion _ = False"

text \<open>\<open>pandas_dtype(dtype).base\<close>: the NumPy dtype under a pandas dtype.\<close>

fun pandas_dtype_base :: "dtype \<Rightarrow> dtype" where
  "pandas_dtype_base (DatetimeTZ _) = Datetime64 NS"
| "pandas_dtype_base d = d"

fun tunit_name :: "tunit \<Rightarrow> string" where
  "tunit_name NS = ''ns''"
| "tunit_name US = ''us''"

fun dtype_name :: "dtype \<Rightarrow> string" where
  "dtype_name Object = ''object''"
| "dtype_name Category = ''category''"
| "dtype_name Bool = ''bool''"
| "dtype_name Int8 = ''int8''"
| "dtype_name Int16 = ''int16''"
| "dtype_name Int32 = ''int32''"
| "dtype_name Int64 = ''int64''"
| "dtype_name UInt8 = ''uint8''"
| "dtype_name UInt16 = ''uint16''"
| "dtype_name UInt32 = ''uint32''"
| "dtype_name UInt64 = ''uint64''"
| "dtype_name Float32 = ''float32''"
| "dtype_name Float64 = ''float64''"
| "dtype_name Complex64 = ''complex64''"
| "dtype_name Complex128 = ''complex128''"
| "dtype_name (Datetime64 u) = ''datetime64['' @ tunit_name u @ '']''"
| "dtype_name (Timedelta64 u) = ''timedelta64['' @ tunit_name u @ '']''"
| "dtype_name (DatetimeTZ z) = ''datetime64[ns, '' @ z @ '']''"

subsection \<open>Arrays\<close>

text \<open>
  \<open>Ndarray d shape mem\<close> is an array of a fixed-width dtype over its memory;
  \<open>NdarrayObj shape xs\<close> is an object array over its cells. \<open>ravel\<close> flattens the
  shape and keeps the memory, \<open>tostring\<close> is the memory, \<open>view("i8")\<close> relabels it.
\<close>

fun dtype_of :: "pyobj \<Rightarrow> pyerr + dtype" where
  "dtype_of (Ndarray d _ _) = Inr d"
| "dtype_of (NdarrayObj _ _) = Inr Object"
| "dtype_of (Instance cs _) =
     (if Cls_Categorical \<in> set cs then Inr Category else Inl (AttributeError ''dtype''))"
| "dtype_of _ = Inl (AttributeError ''dtype'')"

fun ravel :: "pyobj \<Rightarrow> pyobj" where
  "ravel (Ndarray d sh mem) = Ndarray d [length mem div itemsize d] mem"
| "ravel (NdarrayObj sh xs) = NdarrayObj [length xs] xs"
| "ravel x = x"

fun view_i8 :: "pyobj \<Rightarrow> pyobj" where
  "view_i8 (Ndarray d sh mem) = Ndarray Int64 sh mem"
| "view_i8 x = x"


fun tostring :: "pyobj \<Rightarrow> byte list" where
  "tostring (Ndarray d sh mem) = mem"
| "tostring _ = []"

text \<open>
  Iterating over an array yields its cells when it has one dimension and its rows
  otherwise; a 0-d array cannot be iterated.
\<close>

definition rows :: "nat \<Rightarrow> nat \<Rightarrow> 'a list \<Rightarrow> 'a list list" where
  "rows n k xs = map (\<lambda>i. take k (drop (i * k) xs)) [0..<n]"

fun array_rows :: "pyobj \<Rightarrow> pyerr + pyobj list" where
  "array_rows (NdarrayObj [] xs) = Inl (TypeError ''iteration over a 0-d array'')"
| "array_rows (NdarrayObj [n] xs) = Inr xs"
| "array_rows (NdarrayObj (n # m # sh) xs) =
     Inr (map (NdarrayObj (m # sh)) (rows n (prod_list (m # sh)) xs))"
| "array_rows (Ndarray d [] mem) = Inl (TypeError ''iteration over a 0-d array'')"
| "array_rows (Ndarray d [n] mem) =
     Inr (map (Ndarray d []) (rows n (itemsize d) mem))"
| "array_rows (Ndarray d (n # m # sh) mem) =
     Inr (map (Ndarray d (m # sh)) (rows n (prod_list (m # sh) * itemsize d) mem))"
| "array_rows x = Inl (TypeError ''object is not iterable'')"

text \<open>\<open>tolist()\<close> of a flat array: the list of its elements.\<close>

fun tolist :: "pyobj \<Rightarrow> pyobj" where
  "tolist (NdarrayObj sh xs) = PList xs"
| "tolist (Ndarray d sh mem) =
     PList (map (Ndarray d []) (rows (length mem div itemsize d) (itemsize d) mem))"
| "tolist x = x"

text \<open>
  \<open>np.frombuffer(buf, dtype=dtype)\<close>: a one-dimensional array over the buffer; it
  raises when the dtype has no fixed width or when the size of the buffer is not a
  multiple of the element size. Bytes and the memory of a fixed-width array are
  buffers; other objects are not.
\<close>

fun buffer_of :: "pyobj \<Rightarrow> pyerr + byte list" where
  "buffer_of (PBytes b) = Inr b"
| "buffer_of (Ndarray d sh mem) = Inr mem"
| "buffer_of x = Inl (TypeError ''a bytes-like object is required'')"

definition frombuffer :: "pyobj \<Rightarrow> dtype \<Rightarrow> pyerr + pyobj" where
  "frombuffer buf d =
     (case buffer_of buf of
        Inl e \<Rightarrow> Inl e
      | Inr b \<Rightarrow>
          if is_object_dtype d \<or> is_categorical_dtype d
          then Inl (ValueError ''cannot create an OBJECT array from memory buffer'')
          else if length b mod itemsize d \<noteq> 0
          then Inl (ValueError ''buffer size must be a multiple of element size'')
          else Inr (Ndarray d [length b div itemsize d] b))"

text \<open>
  \<open>np.array(values, dtype=object)\<close> discovers the shape of a nested sequence: the
  length of the sequence, followed by the dimensions on which all its items agree when
  these are sequences themselves. A list of two pairs becomes a 2 by 2 array of the four
  components; a list of strings, numbers or tuples of differing lengths becomes a
  one-dimensional array of these items. Lists and tuples count as sequences here,
  strings and everything else as cells.
\<close>

fun common_prefix :: "nat list \<Rightarrow> nat list \<Rightarrow> nat list" where
  "common_prefix (x # xs) (y # ys) = (if x = y then x # common_prefix xs ys else [])"
| "common_prefix _ _ = []"

fun common_dims :: "nat list list \<Rightarrow> nat list" where
  "common_dims [] = []"
| "common_dims (s # ss) = foldl common_prefix s ss"

fun discover_shape :: "pyobj \<Rightarrow> nat list" where
  "discover_shape (PList xs) = length xs # common_dims (map discover_shape xs)"
| "discover_shape (PTuple xs) = length xs # common_dims (map discover_shape xs)"
| "discover_shape _ = []"

fun seq_items :: "pyobj \<Rightarrow> pyobj list" where
  "seq_items (PList xs) = xs"
| "seq_items (PTuple xs) = xs"
| "seq_items _ = []"

fun is_seq :: "pyobj \<Rightarrow> bool" where
  "is_seq (PList xs) = True"
| "is_seq (PTuple xs) = True"
| "is_seq _ = False"

fun flatten_cells :: "nat \<Rightarrow> pyobj \<Rightarrow> pyobj list" where
  "flatten_cells 0 x = [x]"
| "flatten_cells (Suc n) x = concat (map (flatten_cells n) (seq_items x))"

fun np_array_object :: "pyobj \<Rightarrow> pyobj" where
  "np_array_object (NdarrayObj sh xs) = NdarrayObj sh xs"
| "np_array_object x = NdarrayObj (discover_shape x) (flatten_cells (length (discover_shape x)) x)"

section \<open>\<open>convert\<close> and \<open>unconvert\<close>\<close>

text \<open>
  The module-level variable \<open>compressor\<close> is the first argument after the
  environment: \<open>None\<close> or the string given to \<open>to_msgpack\<close>.
\<close>

definition convert :: "env \<Rightarrow> string option \<Rightarrow> pyobj \<Rightarrow> pyerr + pyobj" where
  "convert E compressor values =
     bind (dtype_of values) (\<lambda>dtype.
       if is_categorical_dtype dtype then Inr values
       else if is_object_dtype dtype then Inr (tolist (ravel values))
       else
         let values' = (if needs_i8_conversion dtype then view_i8 values else values);
             v = ravel values'
         in if compressor = Some ''zlib'' then
              bind (check_zlib E) (\<lambda>_.
                if dtype = Object then Inr (tolist v)
                else Inr (ExtType 0 (zlib_compress E (tostring v))))
            else if compressor = Some ''blosc'' then
              bind (check_blosc E) (\<lambda>_.
                if dtype = Object then Inr (tolist v)
                else Inr (ExtType 0 (blosc_compress E (itemsize dtype) (tostring v))))
            else Inr (ExtType 0 (tostring v)))"

fun truthy :: "pyobj \<Rightarrow> bool" where
  "truthy PNone = False"
| "truthy (PBool b) = b"
| "truthy (PInt i) = (i \<noteq> 0)"
| "truthy (PStr s) = (s \<noteq> [])"
| "truthy (PBytes b) = (b \<noteq> [])"
| "truthy (PTuple xs) = (xs \<noteq> [])"
| "truthy (PList xs) = (xs \<noteq> [])"
| "truthy (PDict kvs) = (kvs \<noteq> [])"
| "truthy _ = True"

text \<open>\<open>values[1]\<close>, taken when the payload is not an \<open>ExtType\<close> of code 0.\<close>

fun second :: "pyobj list \<Rightarrow> pyerr + pyobj" where
  "second (x # y # ys) = Inr y"
| "second xs = Inl (KeyError ''index out of range'')"

fun subscript1 :: "pyobj \<Rightarrow> pyerr + pyobj" where
  "subscript1 (PList xs) = second xs"
| "subscript1 (PTuple xs) = second xs"
| "subscript1 (ExtType code dat) = Inr (PBytes dat)"
| "subscript1 (PBytes b) = second (map (\<lambda>w. PInt (uint w)) b)"
| "subscript1 (PStr s) = second (map (\<lambda>c. PStr [c]) s)"
| "subscript1 (PDict d) = Inl (KeyError ''1'')"
| "subscript1 (Ndarray d sh mem) =
     (case array_rows (Ndarray d sh mem) of Inl e \<Rightarrow> Inl e | Inr rs \<Rightarrow> second rs)"
| "subscript1 (NdarrayObj sh xs) =
     (case array_rows (NdarrayObj sh xs) of Inl e \<Rightarrow> Inl e | Inr rs \<Rightarrow> second rs)"
| "subscript1 x = Inl (TypeError ''object is not subscriptable'')"

text \<open>\<open>decompress(values)\<close> takes the bytes of any buffer.\<close>

definition call_decompress ::
  "(byte list \<Rightarrow> pyerr + byte list) \<Rightarrow> pyobj \<Rightarrow> pyerr + byte list" where
  "call_decompress f values = (case buffer_of values of Inl e \<Rightarrow> Inl e | Inr b \<Rightarrow> f b)"

text \<open>
  \<open>unconvert\<close> returns the warnings it issued together with its result. When the move
  into a mutable buffer fails, the decompressed bytes come back on the \<open>BadMove\<close>
  exception and are copied by the final \<open>np.frombuffer\<close>; the warning is issued only when
  they are longer than one byte.
\<close>

definition unconvert :: "env \<Rightarrow> pyobj \<Rightarrow> dtype \<Rightarrow> pyobj \<Rightarrow> warning list \<times> (pyerr + pyobj)" where
  "unconvert E values dtype compress =
     (let as_is_ext = (case values of ExtType code _ \<Rightarrow> code = 0 | _ \<Rightarrow> False);
          values1 = (case values of ExtType code dat \<Rightarrow> if code = 0 then PBytes dat else values
                     | _ \<Rightarrow> values)
      in if is_categorical_dtype dtype then ([], Inr values1)
         else if is_object_dtype dtype then ([], Inr (np_array_object values1))
         else
           let dtype' = pandas_dtype_base dtype in
           case (if \<not> as_is_ext then subscript1 values1 else Inr values1) of
             Inl e \<Rightarrow> ([], Inl e)
           | Inr values2 \<Rightarrow>
               if truthy compress then
                 (case (if compress = PStr ''zlib''
                        then bind (check_zlib E) (\<lambda>_. Inr (zlib_decompress E))
                        else if compress = PStr ''blosc''
                        then bind (check_blosc E) (\<lambda>_. Inr (blosc_decompress E))
                        else Inl (ValueError ''compress must be one of zlib or blosc'')) of
                    Inl e \<Rightarrow> ([], Inl e)
                  | Inr decompress \<Rightarrow>
                      (case call_decompress decompress values2 of
                         Inl e \<Rightarrow> ([], Inl e)
                       | Inr dat \<Rightarrow>
                           if move_succeeds E dat then ([], frombuffer (PBytes dat) dtype')
                           else (if length dat > 1 then [PerformanceWarning] else [],
                                 frombuffer (PBytes dat) dtype')))
               else ([], frombuffer values2 dtype'))"

text \<open>The \<open>compress\<close> field that \<open>encode\<close> writes beside a converted payload.\<close>

definition compress_field :: "string option \<Rightarrow> pyobj" where
  "compress_field c = (case c of None \<Rightarrow> PNone | Some s \<Rightarrow> PStr s)"




fun ndim :: "pyobj \<Rightarrow> nat" where
  "ndim (Ndarray d sh mem) = length sh"
| "ndim (NdarrayObj sh xs) = length sh"
| "ndim _ = 0"


text \<open>
  An environment for the concrete runs below: both libraries installed, compressors
  that reverse the bytes (so that compressed data differs from the raw data), and a
  move that always fails.
\<close>

definition test_env :: env where
  "test_env = \<lparr> zlib_installed = True, blosc_installed = True,
     zlib_compress = rev, zlib_decompress = (\<lambda>b. Inr (rev b)),
     blosc_compress = (\<lambda>n b. rev b), blosc_decompress = (\<lambda>b. Inr (rev b)),
     move_succeeds = (\<lambda>b. False), is_pandas_legacy_version = False,
     extern = (\<lambda>f args. Inl (TypeError f)) \<rparr>"

section \<open>Objects: classes and attributes\<close>

text \<open>
  \<open>isinstance(obj, C)\<close> asks whether \<open>C\<close> is among the classes of the object; the first
  class of an instance is its own (\<open>obj.__class__\<close>). Attributes are looked up by name;
  \<open>obj.dtype.name\<close> is the attribute \<open>dtype.name\<close>, and so on for the other dotted
  reads of the module.
\<close>

fun classes_of :: "pyobj \<Rightarrow> pyclass list" where
  "classes_of (Instance cs attrs) = cs"
| "classes_of (Ndarray d sh mem) = [Cls_ndarray]"
| "classes_of (NdarrayObj sh xs) = [Cls_ndarray]"
| "classes_of (PComplex re im) = [Cls_complex]"
| "classes_of _ = []"

definition isinstance :: "pyobj \<Rightarrow> pyclass \<Rightarrow> bool" where
  "isinstance obj c = (c \<in> set (classes_of obj))"

fun class_name :: "pyclass \<Rightarrow> string" where
  "class_name Cls_Index = ''Index''"
| "class_name Cls_RangeIndex = ''RangeIndex''"
| "class_name Cls_PeriodIndex = ''PeriodIndex''"
| "class_name Cls_DatetimeIndex = ''DatetimeIndex''"
| "class_name Cls_MultiIndex = ''MultiIndex''"
| "class_name Cls_Int64Index = ''Int64Index''"
| "class_name Cls_Float64Index = ''Float64Index''"
| "class_name Cls_CategoricalIndex = ''CategoricalIndex''"
| "class_name Cls_Categorical = ''Categorical''"
| "class_name Cls_Series = ''Series''"
| "class_name Cls_NDFrame = ''NDFrame''"
| "class_name Cls_DataFrame = ''DataFrame''"
| "class_name Cls_datetime = ''datetime''"
| "class_name Cls_date = ''date''"
| "class_name Cls_datetime64 = ''datetime64''"
| "class_name Cls_timedelta = ''timedelta''"
| "class_name Cls_timedelta64 = ''timedelta64''"
| "class_name Cls_NaTType = ''NaTType''"
| "class_name Cls_Timestamp = ''Timestamp''"
| "class_name Cls_Period = ''Period''"
| "class_name Cls_ndarray = ''ndarray''"
| "class_name Cls_number = ''number''"
| "class_name Cls_complex = ''complex''"
| "class_name Cls_tzinfo = ''tzinfo''"
| "class_name Cls_DateOffset = ''DateOffset''"
| "class_name Cls_BlockManager = ''BlockManager''"
| "class_name (Cls_Block s) = s"
| "class_name (Cls_user s) = s"

text \<open>\<open>obj.__class__.__name__\<close>\<close>

definition klass_name :: "pyobj \<Rightarrow> string" where
  "klass_name obj = (case classes_of obj of [] \<Rightarrow> ''object'' | c # cs \<Rightarrow> class_name c)"

fun getattr :: "pyobj \<Rightarrow> string \<Rightarrow> pyerr + pyobj" where
  "getattr (Instance cs attrs) a =
     (case map_of attrs a of None \<Rightarrow> Inl (AttributeError a) | Some v \<Rightarrow> Inr v)"
| "getattr obj a = Inl (AttributeError a)"

text \<open>\<open>getattr(obj, name, default)\<close>\<close>

definition getattr_default :: "pyobj \<Rightarrow> string \<Rightarrow> pyobj \<Rightarrow> pyobj" where
  "getattr_default obj a d = (case getattr obj a of Inl e \<Rightarrow> d | Inr v \<Rightarrow> v)"

fun setattr :: "(string \<times> pyobj) list \<Rightarrow> string \<Rightarrow> pyobj \<Rightarrow> (string \<times> pyobj) list" where
  "setattr [] a v = [(a, v)]"
| "setattr ((k, w) # kvs) a v = (if k = a then (k, v) # kvs else (k, w) # setattr kvs a v)"

fun shape_of :: "pyobj \<Rightarrow> pyerr + pyobj" where
  "shape_of (Ndarray d sh mem) = Inr (PTuple (map (\<lambda>n. PInt (int n)) sh))"
| "shape_of (NdarrayObj sh xs) = Inr (PTuple (map (\<lambda>n. PInt (int n)) sh))"
| "shape_of obj = getattr obj ''shape''"

text \<open>\<open>obj.dtype.name\<close>: computed for an array, an attribute of anything else.\<close>

fun dtype_name_of :: "pyobj \<Rightarrow> pyerr + pyobj" where
  "dtype_name_of (Ndarray d sh mem) = Inr (PStr (dtype_name d))"
| "dtype_name_of (NdarrayObj sh xs) = Inr (PStr (dtype_name Object))"
| "dtype_name_of obj = getattr obj ''dtype.name''"

subsection \<open>Time zones of a datetime index\<close>

text \<open>
  A time zone object carries its name in \<open>zone\<close>. A \<open>DatetimeIndex\<close> keeps its instants
  as UTC nanoseconds in \<open>asi8\<close> whatever its zone, so \<open>tz_convert\<close> replaces the zone
  (and the dtype that names it) and \<open>tz_localize("UTC")\<close> attaches UTC to a naive index;
  both leave \<open>asi8\<close> alone. \<open>tz_convert\<close> raises on a naive index, \<open>tz_localize\<close> on an
  aware one.
\<close>

definition tzinfo :: "string \<Rightarrow> pyobj" where
  "tzinfo zone = Instance [Cls_tzinfo] [(''zone'', PStr zone)]"

fun tz_convert :: "pyobj \<Rightarrow> pyobj \<Rightarrow> pyerr + pyobj" where
  "tz_convert (Instance cs attrs) (PStr zone) =
     (case map_of attrs ''tz'' of
        None \<Rightarrow> Inl (AttributeError ''tz_convert'')
      | Some t \<Rightarrow>
          if t = PNone
          then Inl (TypeError ''Cannot convert tz-naive timestamps, use tz_localize to localize'')
          else Inr (Instance cs (setattr (setattr attrs ''tz'' (tzinfo zone))
                                   ''dtype.name'' (PStr (dtype_name (DatetimeTZ zone))))))"
| "tz_convert obj z = Inl (AttributeError ''tz_convert'')"

fun tz_localize_UTC :: "pyobj \<Rightarrow> pyerr + pyobj" where
  "tz_localize_UTC (Instance cs attrs) =
     (case map_of attrs ''tz'' of
        None \<Rightarrow> Inl (AttributeError ''tz_localize'')
      | Some t \<Rightarrow>
          if t \<noteq> PNone
          then Inl (TypeError ''Already tz-aware, use tz_convert to convert.'')
          else Inr (Instance cs (setattr (setattr attrs ''tz'' (tzinfo ''UTC''))
                                   ''dtype.name'' (PStr (dtype_name (DatetimeTZ ''UTC''))))))"
| "tz_localize_UTC obj = Inl (AttributeError ''tz_localize'')"

text \<open>\<open>np.iscomplexobj\<close> on a NumPy scalar: by its dtype.\<close>

definition iscomplexobj :: "pyobj \<Rightarrow> bool" where
  "iscomplexobj obj =
     (dtype_name_of obj \<in> {Inr (PStr ''complex64''), Inr (PStr ''complex128''), Inr (PStr ''complex256'')})"

subsection \<open>Floats as text\<close>

definition is_digit :: "char \<Rightarrow> bool" where
  "is_digit c = (c \<in> set ''0123456789'')"

fun mag_repr :: "fmag \<Rightarrow> string" where
  "mag_repr Inf = ''inf''"
| "mag_repr NaN = ''nan''"
| "mag_repr (Dec ip fp ex) =
     ip @ (if fp = [] then [] else CHR ''.'' # fp)
        @ (case ex of None \<Rightarrow> []
           | Some (neg, ds) \<Rightarrow> CHR ''e'' # (if neg then CHR ''-'' else CHR ''+'') # ds)"

text \<open>\<open>float.__repr__\<close>; a NaN prints without its sign.\<close>

definition float_repr :: "pyfloat \<Rightarrow> string" where
  "float_repr f = (if fsign f \<and> fmag f \<noteq> NaN then ''-'' else []) @ mag_repr (fmag f)"

section \<open>\<open>encode\<close>\<close>

fun map_result :: "('a \<Rightarrow> pyerr + 'b) \<Rightarrow> 'a list \<Rightarrow> pyerr + 'b list" where
  "map_result f [] = Inr []"
| "map_result f (x # xs) =
     (case f x of Inl e \<Rightarrow> Inl e
      | Inr y \<Rightarrow> (case map_result f xs of Inl e \<Rightarrow> Inl e | Inr ys \<Rightarrow> Inr (y # ys)))"

text \<open>The branch of \<open>encode\<close> for an \<open>Index\<close>, by the flavour of the index.\<close>

definition encode_index :: "env \<Rightarrow> string option \<Rightarrow> pyobj \<Rightarrow> pyerr + pyobj" where
  "encode_index E compressor obj =
     (if isinstance obj Cls_RangeIndex then
        Inr (PDict [(''typ'', PStr ''range_index''),
                    (''klass'', PStr (klass_name obj)),
                    (''name'', getattr_default obj ''name'' PNone),
                    (''start'', getattr_default obj ''start'' PNone),
                    (''stop'', getattr_default obj ''stop'' PNone),
                    (''step'', getattr_default obj ''step'' PNone)])
      else if isinstance obj Cls_PeriodIndex then
        bind (dtype_name_of obj) (\<lambda>dn.
        bind (getattr obj ''asi8'') (\<lambda>asi8.
        bind (convert E compressor asi8) (\<lambda>dat.
          Inr (PDict [(''typ'', PStr ''period_index''),
                      (''klass'', PStr (klass_name obj)),
                      (''name'', getattr_default obj ''name'' PNone),
                      (''freq'', getattr_default obj ''freqstr'' PNone),
                      (''dtype'', dn),
                      (''data'', dat),
                      (''compress'', compress_field compressor)]))))
      else if isinstance obj Cls_DatetimeIndex then
        (let tz = getattr_default obj ''tz'' PNone in
         bind (if tz \<noteq> PNone then getattr tz ''zone'' else Inr tz) (\<lambda>tz'.
         bind (if tz \<noteq> PNone then tz_convert obj (PStr ''UTC'') else Inr obj) (\<lambda>obj'.
         bind (dtype_name_of obj') (\<lambda>dn.
         bind (getattr obj' ''asi8'') (\<lambda>asi8.
         bind (convert E compressor asi8) (\<lambda>dat.
           Inr (PDict [(''typ'', PStr ''datetime_index''),
                       (''klass'', PStr (klass_name obj')),
                       (''name'', getattr_default obj' ''name'' PNone),
                       (''dtype'', dn),
                       (''data'', dat),
                       (''freq'', getattr_default obj' ''freqstr'' PNone),
                       (''tz'', tz'),
                       (''compress'', compress_field compressor)])))))))
      else if isinstance obj Cls_MultiIndex then
        bind (dtype_name_of obj) (\<lambda>dn.
        bind (getattr obj ''values'') (\<lambda>vals.
        bind (convert E compressor vals) (\<lambda>dat.
          Inr (PDict [(''typ'', PStr ''multi_index''),
                      (''klass'', PStr (klass_name obj)),
                      (''names'', getattr_default obj ''names'' PNone),
                      (''dtype'', dn),
                      (''data'', dat),
                      (''compress'', compress_field compressor)]))))
      else
        bind (dtype_name_of obj) (\<lambda>dn.
        bind (getattr obj ''values'') (\<lambda>vals.
        bind (convert E compressor vals) (\<lambda>dat.
          Inr (PDict [(''typ'', PStr ''index''),
                      (''klass'', PStr (klass_name obj)),
                      (''name'', getattr_default obj ''name'' PNone),
                      (''dtype'', dn),
                      (''data'', dat),
                      (''compress'', compress_field compressor)])))))"

text \<open>One record per block of the (consolidated) block manager.\<close>

definition encode_block :: "env \<Rightarrow> string option \<Rightarrow> pyobj \<Rightarrow> pyerr + pyobj" where
  "encode_block E compressor b =
     bind (getattr b ''mgr_locs.as_array'') (\<lambda>locs.
     bind (getattr b ''values'') (\<lambda>vals.
     bind (convert E compressor vals) (\<lambda>dat.
     bind (shape_of vals) (\<lambda>sh.
     bind (dtype_name_of b) (\<lambda>dn.
       Inr (PDict [(''locs'', locs),
                   (''values'', dat),
                   (''shape'', sh),
                   (''dtype'', dn),
                   (''klass'', PStr (klass_name b)),
                   (''compress'', compress_field compressor)]))))))"

definition encode_ndframe :: "env \<Rightarrow> string option \<Rightarrow> pyobj \<Rightarrow> pyerr + pyobj" where
  "encode_ndframe E compressor obj =
     bind (getattr obj ''_data'') (\<lambda>data0.
     bind (getattr data0 ''is_consolidated()'') (\<lambda>cons.
     bind (if \<not> truthy cons then getattr data0 ''consolidate()'' else Inr data0) (\<lambda>data.
     bind (getattr data ''axes'') (\<lambda>axes.
     bind (getattr data ''blocks'') (\<lambda>blocks.
     bind (map_result (encode_block E compressor) (seq_items blocks)) (\<lambda>bs.
       Inr (PDict [(''typ'', PStr ''block_manager''),
                   (''klass'', PStr (klass_name obj)),
                   (''axes'', axes),
                   (''blocks'', PList bs)])))))))"

text \<open>
  The branch behind the guard
  \<open>isinstance(obj, (datetime, date, np.datetime64, timedelta, np.timedelta64, NaTType))\<close>.
\<close>

definition encode_datetimelike :: "pyobj \<Rightarrow> pyerr + pyobj" where
  "encode_datetimelike obj =
     (if isinstance obj Cls_Timestamp then
        bind (getattr obj ''tzinfo'') (\<lambda>tz.
        bind (if tz \<noteq> PNone then getattr tz ''zone'' else Inr tz) (\<lambda>tz'.
        bind (getattr obj ''freq'') (\<lambda>freq.
        bind (if freq \<noteq> PNone then getattr freq ''freqstr'' else Inr freq) (\<lambda>freq'.
        bind (getattr obj ''value'') (\<lambda>v.
          Inr (PDict [(''typ'', PStr ''timestamp''), (''value'', v),
                      (''freq'', freq'), (''tz'', tz')]))))))
      else if isinstance obj Cls_NaTType then Inr (PDict [(''typ'', PStr ''nat'')])
      else if isinstance obj Cls_timedelta64 then
        bind (getattr obj ''view(i8)'') (\<lambda>v.
          Inr (PDict [(''typ'', PStr ''timedelta64''), (''data'', v)]))
      else if isinstance obj Cls_timedelta then
        bind (getattr obj ''days'') (\<lambda>d.
        bind (getattr obj ''seconds'') (\<lambda>s.
        bind (getattr obj ''microseconds'') (\<lambda>us.
          Inr (PDict [(''typ'', PStr ''timedelta''), (''data'', PTuple [d, s, us])]))))
      else if isinstance obj Cls_datetime64 then
        bind (getattr obj ''__str__()'') (\<lambda>s.
          Inr (PDict [(''typ'', PStr ''datetime64''), (''data'', s)]))
      else if isinstance obj Cls_datetime then
        bind (getattr obj ''isoformat()'') (\<lambda>s.
          Inr (PDict [(''typ'', PStr ''datetime''), (''data'', s)]))
      else if isinstance obj Cls_date then
        bind (getattr obj ''isoformat()'') (\<lambda>s.
          Inr (PDict [(''typ'', PStr ''date''), (''data'', s)]))
      else Inl Exception_cannot_encode)"

text \<open>\<open>obj.real.__repr__()\<close> and \<open>obj.imag.__repr__()\<close>\<close>

fun real_repr :: "pyobj \<Rightarrow> pyerr + pyobj" where
  "real_repr (PComplex re im) = Inr (PStr (float_repr re))"
| "real_repr obj = getattr obj ''real.__repr__()''"

fun imag_repr :: "pyobj \<Rightarrow> pyerr + pyobj" where
  "imag_repr (PComplex re im) = Inr (PStr (float_repr im))"
| "imag_repr obj = getattr obj ''imag.__repr__()''"

definition encode :: "env \<Rightarrow> string option \<Rightarrow> pyobj \<Rightarrow> pyerr + pyobj" where
  "encode E compressor obj =
     (if isinstance obj Cls_Index then encode_index E compressor obj
      else if isinstance obj Cls_Categorical then
        bind (getattr obj ''codes'') (\<lambda>codes.
        bind (getattr obj ''categories'') (\<lambda>cats.
        bind (getattr obj ''ordered'') (\<lambda>ord.
          Inr (PDict [(''typ'', PStr ''category''),
                      (''klass'', PStr (klass_name obj)),
                      (''name'', getattr_default obj ''name'' PNone),
                      (''codes'', codes),
                      (''categories'', cats),
                      (''ordered'', ord),
                      (''compress'', compress_field compressor)]))))
      else if isinstance obj Cls_Series then
        bind (getattr obj ''index'') (\<lambda>idx.
        bind (dtype_name_of obj) (\<lambda>dn.
        bind (getattr obj ''values'') (\<lambda>vals.
        bind (convert E compressor vals) (\<lambda>dat.
          Inr (PDict [(''typ'', PStr ''series''),
                      (''klass'', PStr (klass_name obj)),
                      (''name'', getattr_default obj ''name'' PNone),
                      (''index'', idx),
                      (''dtype'', dn),
                      (''data'', dat),
                      (''compress'', compress_field compressor)])))))
      else if isinstance obj Cls_NDFrame then encode_ndframe E compressor obj
      else if isinstance obj Cls_datetime \<or> isinstance obj Cls_date
              \<or> isinstance obj Cls_datetime64 \<or> isinstance obj Cls_timedelta
              \<or> isinstance obj Cls_timedelta64 \<or> isinstance obj Cls_NaTType
      then encode_datetimelike obj
      else if isinstance obj Cls_Period then
        bind (getattr obj ''ordinal'') (\<lambda>ordinal.
        bind (getattr obj ''freq'') (\<lambda>freq.
          Inr (PDict [(''typ'', PStr ''period''), (''ordinal'', ordinal), (''freq'', freq)])))
      else if isinstance obj Cls_ndarray then
        bind (shape_of obj) (\<lambda>sh.
        bind (dtype_name_of obj) (\<lambda>dn.
        bind (convert E compressor obj) (\<lambda>dat.
          Inr (PDict [(''typ'', PStr ''ndarray''),
                      (''shape'', sh),
                      (''ndim'', PInt (int (ndim obj))),
                      (''dtype'', dn),
                      (''data'', dat),
                      (''compress'', compress_field compressor)]))))
      else if isinstance obj Cls_number then
        (if iscomplexobj obj then
           bind (dtype_name_of obj) (\<lambda>dn.
           bind (real_repr obj) (\<lambda>re.
           bind (imag_repr obj) (\<lambda>im.
             Inr (PDict [(''typ'', PStr ''np_scalar''),
                         (''sub_typ'', PStr ''np_complex''),
                         (''dtype'', dn),
                         (''real'', re),
                         (''imag'', im)]))))
         else
           bind (dtype_name_of obj) (\<lambda>dn.
           bind (getattr obj ''__repr__()'') (\<lambda>r.
             Inr (PDict [(''typ'', PStr ''np_scalar''), (''dtype'', dn), (''data'', r)]))))
      else if isinstance obj Cls_complex then
        bind (real_repr obj) (\<lambda>re.
        bind (imag_repr obj) (\<lambda>im.
          Inr (PDict [(''typ'', PStr ''np_complex''), (''real'', re), (''imag'', im)])))
      else Inr obj)"

section \<open>\<open>decode\<close>\<close>

subsection \<open>Dictionaries and names\<close>

text \<open>\<open>obj.get(k)\<close> and \<open>obj[k]\<close> on a dict.\<close>

definition dict_get :: "(string \<times> pyobj) list \<Rightarrow> string \<Rightarrow> pyobj" where
  "dict_get d k = (case map_of d k of None \<Rightarrow> PNone | Some v \<Rightarrow> v)"

definition dict_item :: "(string \<times> pyobj) list \<Rightarrow> string \<Rightarrow> pyerr + pyobj" where
  "dict_item d k = (case map_of d k of None \<Rightarrow> Inl (KeyError k) | Some v \<Rightarrow> Inr v)"

text \<open>The names bound at module level, which \<open>globals()[klass]\<close> can find.\<close>

definition module_globals :: "string list" where
  "module_globals =
     [''datetime'', ''date'', ''timedelta'', ''parse'', ''os'', ''dedent'', ''warnings'', ''Path'',
      ''np'', ''compat'', ''is_categorical_dtype'', ''is_object_dtype'', ''pandas_dtype'',
      ''needs_i8_conversion'', ''DatetimeTZBlock'', ''DatetimeArray'', ''Timestamp'', ''Period'',
      ''PeriodIndex'', ''Series'', ''DatetimeTZDtype'', ''DataFrame'', ''Index'', ''MultiIndex'',
      ''Float64Index'', ''Int64Index'', ''RangeIndex'', ''DatetimeIndex'', ''NaT'', ''Categorical'',
      ''CategoricalIndex'', ''path_types'', ''binary_type'', ''BytesIO'', ''NDFrame'',
      ''PerformanceWarning'', ''get_filepath_or_buffer'', ''BlockManager'', ''make_block'',
      ''_safe_reshape'', ''internals'', ''_is_pandas_legacy_version'', ''_Unpacker'', ''_Packer'',
      ''ExtType'', ''_BadMove'', ''_move_into_mutable_buffer'', ''NaTType'', ''zlib'', ''_check_zlib'',
      ''blosc'', ''_check_blosc'', ''compressor'', ''to_msgpack'', ''read_msgpack'', ''dtype_dict'',
      ''dtype_for'', ''c2f_dict'', ''c2f'', ''convert'', ''unconvert'', ''encode'', ''decode'', ''pack'',
      ''unpack'', ''Packer'', ''Unpacker'', ''Iterator'']"

text \<open>
  \<open>globals()[klass](args)\<close> for the classes whose constructors are left to the
  environment: a \<open>KeyError\<close> when the name is not bound in the module.
\<close>

fun globals_lookup :: "pyobj \<Rightarrow> pyerr + pyobj" where
  "globals_lookup (PStr klass) =
     (if klass \<in> set module_globals then Inr (PStr klass) else Inl (KeyError klass))"
| "globals_lookup k = Inl (KeyError ''klass'')"

fun construct :: "env \<Rightarrow> pyobj \<Rightarrow> pyobj list \<Rightarrow> pyerr + pyobj" where
  "construct E (PStr klass) args =
     (if klass \<in> set module_globals then extern E klass args else Inl (KeyError klass))"
| "construct E k args = Inl (KeyError ''klass'')"

text \<open>
  \<open>dtype_for\<close>: the module's own table first, then NumPy's table of type names; a name
  found in neither is handed on as it is, and \<open>pandas_dtype\<close> understands the names of
  the zone-aware datetime dtypes among these. \<open>None\<close> is a name that \<open>pandas_dtype\<close>
  rejects.
\<close>

definition dtype_dict :: "(pyobj \<times> dtype) list" where
  "dtype_dict =
     [(PInt 21, Datetime64 NS), (PStr ''datetime64[ns]'', Datetime64 NS),
      (PStr ''datetime64[us]'', Datetime64 US),
      (PInt 22, Timedelta64 NS), (PStr ''timedelta64[ns]'', Timedelta64 NS),
      (PStr ''timedelta64[us]'', Timedelta64 US),
      (PInt 7, Int64), (PStr ''category'', Category)]"

definition np_typeDict :: "(pyobj \<times> dtype) list" where
  "np_typeDict =
     [(PStr ''bool'', Bool), (PStr ''object'', Object),
      (PStr ''int8'', Int8), (PStr ''int16'', Int16), (PStr ''int32'', Int32), (PStr ''int64'', Int64),
      (PStr ''uint8'', UInt8), (PStr ''uint16'', UInt16), (PStr ''uint32'', UInt32),
      (PStr ''uint64'', UInt64), (PStr ''float32'', Float32), (PStr ''float64'', Float64),
      (PStr ''complex64'', Complex64), (PStr ''complex128'', Complex128)]"

definition parse_tz_dtype :: "string \<Rightarrow> dtype option" where
  "parse_tz_dtype s =
     (if take 15 s = ''datetime64[ns, '' \<and> 16 < length s \<and> last s = CHR '']''
      then Some (DatetimeTZ (butlast (drop 15 s))) else None)"

definition dtype_for :: "pyobj \<Rightarrow> dtype option" where
  "dtype_for t =
     (case map_of dtype_dict t of
        Some d \<Rightarrow> Some d
      | None \<Rightarrow>
          (case map_of np_typeDict t of
             Some d \<Rightarrow> Some d
           | None \<Rightarrow> (case t of PStr s \<Rightarrow> parse_tz_dtype s | _ \<Rightarrow> None)))"

text \<open>\<open>unconvert\<close> with the result of \<open>dtype_for\<close>, warnings dropped.\<close>

definition unconvert_as :: "env \<Rightarrow> pyobj \<Rightarrow> dtype option \<Rightarrow> pyobj \<Rightarrow> pyerr + pyobj" where
  "unconvert_as E values dt compress =
     (case dt of
        None \<Rightarrow> Inl (TypeError ''data type not understood'')
      | Some d \<Rightarrow> snd (unconvert E values d compress))"

subsection \<open>Arrays: reshaping and iteration\<close>

fun shape_ints :: "pyobj list \<Rightarrow> nat list option" where
  "shape_ints [] = Some []"
| "shape_ints (PInt i # xs) =
     (if i < 0 then None else map_option ((#) (nat i)) (shape_ints xs))"
| "shape_ints (x # xs) = None"

fun reshape :: "pyobj \<Rightarrow> pyobj \<Rightarrow> pyerr + pyobj" where
  "reshape (Ndarray d sh mem) shp =
     (case shape_ints (if is_seq shp then seq_items shp else [shp]) of
        None \<Rightarrow> Inl (TypeError ''shape'')
      | Some sh' \<Rightarrow>
          if prod_list sh' * itemsize d = length mem then Inr (Ndarray d sh' mem)
          else Inl (ValueError ''cannot reshape array''))"
| "reshape (NdarrayObj sh xs) shp =
     (case shape_ints (if is_seq shp then seq_items shp else [shp]) of
        None \<Rightarrow> Inl (TypeError ''shape'')
      | Some sh' \<Rightarrow>
          if prod_list sh' = length xs then Inr (NdarrayObj sh' xs)
          else Inl (ValueError ''cannot reshape array''))"
| "reshape obj shp = Inl (AttributeError ''reshape'')"

text \<open>\<open>_safe_reshape\<close> reshapes an array and leaves an extension array as it is.\<close>

definition safe_reshape :: "pyobj \<Rightarrow> pyobj \<Rightarrow> pyerr + pyobj" where
  "safe_reshape arr shp = (if isinstance arr Cls_ndarray then reshape arr shp else Inr arr)"

text \<open>
  \<open>tuple(x)\<close> takes the items of a sequence, the cells or rows of an array, the
  characters of a string, the keys of a dict, the two fields of an \<open>ExtType\<close>.
\<close>

fun tuple_of :: "env \<Rightarrow> pyobj \<Rightarrow> pyerr + pyobj" where
  "tuple_of E (PTuple xs) = Inr (PTuple xs)"
| "tuple_of E (PList xs) = Inr (PTuple xs)"
| "tuple_of E (PStr s) = Inr (PTuple (map (\<lambda>c. PStr [c]) s))"
| "tuple_of E (PBytes b) = Inr (PTuple (map (\<lambda>w. PInt (uint w)) b))"
| "tuple_of E (PDict d) = Inr (PTuple (map (\<lambda>kv. PStr (fst kv)) d))"
| "tuple_of E (ExtType code dat) = Inr (PTuple [PInt (int code), PBytes dat])"
| "tuple_of E (NdarrayObj sh xs) =
     (case array_rows (NdarrayObj sh xs) of Inl e \<Rightarrow> Inl e | Inr rs \<Rightarrow> Inr (PTuple rs))"
| "tuple_of E (Ndarray d sh mem) =
     (case array_rows (Ndarray d sh mem) of Inl e \<Rightarrow> Inl e | Inr rs \<Rightarrow> Inr (PTuple rs))"
| "tuple_of E (Instance cs attrs) = extern E ''tuple'' [Instance cs attrs]"
| "tuple_of E x = Inl (TypeError ''object is not iterable'')"

text \<open>
  The elements of an \<open>int64\<close> array, read from its memory eight bytes at a time, least
  significant byte first, and the bytes of one such element.
\<close>

fun le_uint :: "byte list \<Rightarrow> int" where
  "le_uint [] = 0"
| "le_uint (b # bs) = uint b + 256 * le_uint bs"

fun int64_items :: "byte list \<Rightarrow> int list" where
  "int64_items (b0 # b1 # b2 # b3 # b4 # b5 # b6 # b7 # bs) =
     sint (word_of_int (le_uint [b0, b1, b2, b3, b4, b5, b6, b7]) :: 64 word) # int64_items bs"
| "int64_items bs = []"

fun le_bytes :: "nat \<Rightarrow> int \<Rightarrow> byte list" where
  "le_bytes 0 i = []"
| "le_bytes (Suc n) i = word_of_int i # le_bytes n (i div 256)"

definition int64_bytes :: "int \<Rightarrow> byte list" where
  "int64_bytes i = le_bytes 8 i"

subsection \<open>Parsing a complex number\<close>

text \<open>
  \<open>complex(s)\<close> as CPython reads it. A float is read from the front of the text as far
  as it goes: an optional sign, then \<open>inf\<close>, \<open>infinity\<close> or \<open>nan\<close> in any case, or a
  decimal literal with at least one digit and an exponent only when digits follow it.
  The float read back is the sign and the literal, which is the float itself on the
  literals that \<open>repr\<close> writes.
\<close>

definition lower :: "char \<Rightarrow> char" where
  "lower c = (if c \<in> set ''ABCDEFGHIJKLMNOPQRSTUVWXYZ'' then char_of (of_char c + (32::nat)) else c)"

definition parse_inf_nan :: "string \<Rightarrow> (fmag \<times> string) option" where
  "parse_inf_nan s =
     (if map lower (take 8 s) = ''infinity'' then Some (Inf, drop 8 s)
      else if map lower (take 3 s) = ''inf'' then Some (Inf, drop 3 s)
      else if map lower (take 3 s) = ''nan'' then Some (NaN, drop 3 s)
      else None)"

fun parse_exponent :: "string \<Rightarrow> (bool \<times> string) option \<times> string" where
  "parse_exponent [] = (None, [])"
| "parse_exponent (e # s) =
     (if e = CHR ''e'' \<or> e = CHR ''E'' then
        (let neg = (case s of [] \<Rightarrow> False | c # u \<Rightarrow> c = CHR ''-'');
             t = (case s of [] \<Rightarrow> s | c # u \<Rightarrow> if c = CHR ''-'' \<or> c = CHR ''+'' then u else s)
         in if takeWhile is_digit t = [] then (None, e # s)
            else (Some (neg, takeWhile is_digit t), dropWhile is_digit t))
      else (None, e # s))"

definition parse_decimal :: "string \<Rightarrow> (fmag \<times> string) option" where
  "parse_decimal s =
     (let ip = takeWhile is_digit s;
          r1 = dropWhile is_digit s;
          dot = (case r1 of [] \<Rightarrow> False | c # t \<Rightarrow> c = CHR ''.'');
          fp = (if dot then takeWhile is_digit (tl r1) else []);
          r2 = (if dot then dropWhile is_digit (tl r1) else r1)
      in if ip = [] \<and> fp = [] then None
         else Some (Dec ip fp (fst (parse_exponent r2)), snd (parse_exponent r2)))"

text \<open>
  \<open>PyOS_string_to_double(s, &end)\<close>: the float and the rest, or nothing read. The
  sign, when there is one, is followed by the unsigned literal.
\<close>

definition parse_unsigned :: "bool \<Rightarrow> string \<Rightarrow> (pyfloat \<times> string) option" where
  "parse_unsigned neg t =
     (case parse_inf_nan t of
        Some (m, r) \<Rightarrow> Some (PyFloat neg m, r)
      | None \<Rightarrow> (case parse_decimal t of
                   Some (m, r) \<Rightarrow> Some (PyFloat neg m, r)
                 | None \<Rightarrow> None))"

fun parse_float :: "string \<Rightarrow> (pyfloat \<times> string) option" where
  "parse_float [] = parse_unsigned False []"
| "parse_float (c # u) =
     (if c = CHR ''-'' then parse_unsigned True u
      else if c = CHR ''+'' then parse_unsigned False u
      else parse_unsigned False (c # u))"

definition is_space :: "char \<Rightarrow> bool" where
  "is_space c = (c \<in> {CHR '' '', CHR 0x09, CHR 0x0A, CHR 0x0B, CHR 0x0C, CHR 0x0D})"

definition float_one :: "bool \<Rightarrow> pyfloat" where
  "float_one neg = PyFloat neg (Dec ''1'' ''0'' None)"

definition float_zero :: pyfloat where
  "float_zero = PyFloat False (Dec ''0'' ''0'' None)"

definition is_j :: "string \<Rightarrow> bool" where
  "is_j s = (case s of [] \<Rightarrow> False | c # u \<Rightarrow> c = CHR ''j'' \<or> c = CHR ''J'')"

definition is_sign :: "string \<Rightarrow> bool" where
  "is_sign s = (case s of [] \<Rightarrow> False | c # u \<Rightarrow> c = CHR ''+'' \<or> c = CHR ''-'')"

text \<open>
  The body of the number, after leading blanks and an opening bracket: the real part,
  the imaginary part and the rest of the text, or a parse error.
\<close>

definition complex_body :: "string \<Rightarrow> (pyfloat \<times> pyfloat \<times> string) option" where
  "complex_body s =
     (case parse_float s of
        Some (z, r) \<Rightarrow>
          if is_sign r then
            (case parse_float r of
               Some (y, r') \<Rightarrow> if is_j r' then Some (z, y, tl r') else None
             | None \<Rightarrow> if is_j (tl r) then Some (z, float_one (hd r = CHR ''-''), tl (tl r))
                        else None)
          else if is_j r then Some (float_zero, z, tl r)
          else Some (z, float_zero, r)
      | None \<Rightarrow>
          if is_sign s then
            (if is_j (tl s) then Some (float_zero, float_one (hd s = CHR ''-''), tl (tl s))
             else None)
          else if is_j s then Some (float_zero, float_one False, tl s)
          else None)"

definition complex_from_string :: "string \<Rightarrow> pyerr + pyobj" where
  "complex_from_string s0 =
     (let s1 = dropWhile is_space s0;
          got_bracket = (case s1 of [] \<Rightarrow> False | c # u \<Rightarrow> c = CHR ''('');
          s2 = (if got_bracket then dropWhile is_space (tl s1) else s1)
      in case complex_body s2 of
           None \<Rightarrow> Inl (ValueError ''complex() arg is a malformed string'')
         | Some (x, y, r) \<Rightarrow>
             (let r1 = dropWhile is_space r;
                  closed = (case r1 of [] \<Rightarrow> False | c # u \<Rightarrow> c = CHR '')'');
                  r2 = (if got_bracket then dropWhile is_space (tl r1) else r1)
              in if (got_bracket \<and> \<not> closed) \<or> r2 \<noteq> []
                 then Inl (ValueError ''complex() arg is a malformed string'')
                 else Inr (PComplex x y)))"



text \<open>\<open>str + str\<close> in \<open>decode\<close>: a \<open>TypeError\<close> unless both are strings.\<close>

fun str_add :: "pyobj \<Rightarrow> pyobj \<Rightarrow> pyerr + pyobj" where
  "str_add (PStr a) (PStr b) = Inr (PStr (a @ b))"
| "str_add a b = Inl (TypeError ''must be str'')"

subsection \<open>The constructors that \<open>decode\<close> calls\<close>

text \<open>
  \<open>Timestamp(value, tz=tz, freq=freq)\<close>, \<open>NaT\<close> and \<open>Period(ordinal=o, freq=f)\<close>: a zone
  given by name becomes the zone object, a frequency given by name the offset object.
\<close>

fun to_tzinfo :: "pyobj \<Rightarrow> pyobj" where
  "to_tzinfo (PStr z) = tzinfo z"
| "to_tzinfo x = x"

fun to_offset :: "pyobj \<Rightarrow> pyobj" where
  "to_offset (PStr f) = Instance [Cls_DateOffset] [(''freqstr'', PStr f)]"
| "to_offset x = x"

definition Timestamp :: "pyobj \<Rightarrow> pyobj \<Rightarrow> pyobj \<Rightarrow> pyobj" where
  "Timestamp v tz freq =
     Instance [Cls_Timestamp, Cls_datetime, Cls_date]
       [(''value'', v), (''tzinfo'', to_tzinfo tz), (''freq'', to_offset freq)]"

definition NaT :: pyobj where
  "NaT = Instance [Cls_NaTType, Cls_datetime, Cls_date] []"

definition Period :: "pyobj \<Rightarrow> pyobj \<Rightarrow> pyobj" where
  "Period ordinal freq = Instance [Cls_Period] [(''ordinal'', ordinal), (''freq'', to_offset freq)]"

text \<open>
  \<open>PeriodIndex(values)\<close> on a list of periods: the frequency is that of the periods, and
  cannot be inferred from an empty list; the ordinals become the \<open>int64\<close> data.
\<close>

fun ordinal_of :: "pyobj \<Rightarrow> pyerr + int" where
  "ordinal_of p =
     (case getattr p ''ordinal'' of
        Inl e \<Rightarrow> Inl e
      | Inr (PInt i) \<Rightarrow> Inr i
      | Inr x \<Rightarrow> Inl (TypeError ''ordinal''))"

fun PeriodIndex :: "pyobj list \<Rightarrow> pyerr + pyobj" where
  "PeriodIndex [] = Inl (ValueError ''freq not specified and cannot be inferred'')"
| "PeriodIndex (p # ps) =
     bind (getattr p ''freq'') (\<lambda>f.
     bind (getattr f ''freqstr'') (\<lambda>fs.
     bind (map_result ordinal_of (p # ps)) (\<lambda>ords.
       Inr (Instance [Cls_PeriodIndex, Cls_Index]
              [(''name'', PNone), (''freqstr'', fs),
               (''dtype.name'', (case fs of PStr s \<Rightarrow> PStr (''period['' @ s @ '']'') | x \<Rightarrow> x)),
               (''asi8'', Ndarray Int64 [length ords] (concat (map int64_bytes ords)))]))))"

text \<open>\<open>DatetimeIndex(data, name=name, freq=freq)\<close> on \<open>int64\<close> data: a naive index.\<close>

definition DatetimeIndex :: "pyobj \<Rightarrow> pyobj \<Rightarrow> pyobj \<Rightarrow> pyobj" where
  "DatetimeIndex data name freq =
     Instance [Cls_DatetimeIndex, Cls_Index]
       [(''name'', name), (''tz'', PNone), (''freqstr'', freq),
        (''dtype.name'', PStr (dtype_name (Datetime64 NS))), (''asi8'', data)]"

text \<open>
  \<open>getattr(internals, name)\<close> for the block classes of \<open>pandas.core.internals\<close>.
\<close>

definition block_classes :: "string list" where
  "block_classes =
     [''Block'', ''FloatBlock'', ''IntBlock'', ''ComplexBlock'', ''BoolBlock'', ''ObjectBlock'',
      ''DatetimeBlock'', ''DatetimeTZBlock'', ''TimeDeltaBlock'', ''CategoricalBlock'',
      ''ExtensionBlock'']"

fun internals_getattr :: "pyobj \<Rightarrow> pyerr + pyclass" where
  "internals_getattr (PStr k) =
     (if k \<in> set block_classes then Inr (Cls_Block k) else Inl (AttributeError k))"
| "internals_getattr x = Inl (TypeError ''attribute name must be string'')"

fun subscript0 :: "pyobj \<Rightarrow> pyerr + pyobj" where
  "subscript0 (PList (x # xs)) = Inr x"
| "subscript0 (PTuple (x # xs)) = Inr x"
| "subscript0 (PList []) = Inl (KeyError ''index out of range'')"
| "subscript0 (PTuple []) = Inl (KeyError ''index out of range'')"
| "subscript0 x = Inl (TypeError ''object is not subscriptable'')"

fun dict_of :: "pyobj \<Rightarrow> pyerr + (string \<times> pyobj) list" where
  "dict_of (PDict d) = Inr d"
| "dict_of x = Inl (TypeError ''indices must be integers'')"

subsection \<open>The branches of \<open>decode\<close>\<close>

text \<open>
  \<open>create_block\<close>, the local function of the \<open>block_manager\<close> branch: the payload is
  unconverted and reshaped, the placement found, and only then the class looked at;
  \<open>make_block\<close> is reached for every class but \<open>DatetimeTZBlock\<close>.
\<close>

definition create_block :: "env \<Rightarrow> pyobj \<Rightarrow> pyobj \<Rightarrow> pyerr + pyobj" where
  "create_block E axes b =
     bind (dict_of b) (\<lambda>bd.
     bind (dict_item bd ''values'') (\<lambda>v.
     bind (dict_item bd ''dtype'') (\<lambda>dn.
     bind (dict_item bd ''compress'') (\<lambda>c.
     bind (unconvert_as E v (dtype_for dn) c) (\<lambda>arr.
     bind (dict_item bd ''shape'') (\<lambda>shp.
     bind (safe_reshape arr shp) (\<lambda>values.
     bind (if map_of bd ''locs'' \<noteq> None then dict_item bd ''locs''
           else bind (subscript0 axes) (\<lambda>a0.
                bind (dict_item bd ''items'') (\<lambda>items.
                  extern E ''Index.get_indexer'' [a0, items]))) (\<lambda>placement.
     bind (dict_item bd ''klass'') (\<lambda>k.
     bind (internals_getattr k) (\<lambda>klass.
       if klass = Cls_Block ''DatetimeTZBlock''
       then Inl (ValueError ''Lost the ability to parse datetime with timezone. Sorry'')
       else extern E ''make_block'' [values, k, placement, dn]))))))))))"

definition decode_block_manager :: "env \<Rightarrow> (string \<times> pyobj) list \<Rightarrow> pyerr + pyobj" where
  "decode_block_manager E obj =
     bind (dict_item obj ''axes'') (\<lambda>axes.
     bind (dict_item obj ''blocks'') (\<lambda>bs.
     bind (if is_seq bs then Inr (seq_items bs) else Inl (TypeError ''blocks is not iterable''))
       (\<lambda>bl.
     bind (map_result (create_block E axes) bl) (\<lambda>blocks.
     bind (dict_item obj ''klass'') (\<lambda>k.
     bind (globals_lookup k) (\<lambda>k'.
     bind (extern E ''BlockManager'' [PList blocks, axes]) (\<lambda>mgr.
       construct E k' [mgr])))))))"

text \<open>
  The \<open>period_index\<close> branch. With a legacy pandas the class named by the record is
  called with the data, the name and the frequency; otherwise a missing frequency is an
  error and each ordinal becomes a period of the recorded frequency.
\<close>

definition decode_period_index :: "env \<Rightarrow> (string \<times> pyobj) list \<Rightarrow> pyerr + pyobj" where
  "decode_period_index E obj =
     bind (dict_item obj ''data'') (\<lambda>dat.
     bind (unconvert_as E dat (Some Int64) (dict_get obj ''compress'')) (\<lambda>data.
     bind (dict_item obj ''name'') (\<lambda>name.
     bind (dict_item obj ''freq'') (\<lambda>freq.
       if is_pandas_legacy_version E then
         bind (dict_item obj ''klass'') (\<lambda>k. construct E k [data, name, freq])
       else if freq = PNone
       then Inl (ValueError ''freq is not specified and cannot be inferred'')
       else PeriodIndex (map (\<lambda>x. Period (PInt x) freq) (int64_items (tostring data)))))))"

text \<open>
  The \<open>datetime_index\<close> branch: the index is built from the data, and when a zone was
  recorded it is localized to UTC and then converted to that zone.
\<close>

definition decode_datetime_index :: "env \<Rightarrow> (string \<times> pyobj) list \<Rightarrow> pyerr + pyobj" where
  "decode_datetime_index E obj =
     bind (dict_item obj ''data'') (\<lambda>dat.
     bind (unconvert_as E dat (Some Int64) (dict_get obj ''compress'')) (\<lambda>data.
     bind (dict_item obj ''name'') (\<lambda>name.
     bind (dict_item obj ''freq'') (\<lambda>freq.
     bind (dict_item obj ''klass'') (\<lambda>k.
     bind (if k = PStr ''DatetimeIndex'' then Inr (DatetimeIndex data name freq)
           else construct E k [data, name, freq]) (\<lambda>result.
     bind (dict_item obj ''tz'') (\<lambda>tz.
       if tz \<noteq> PNone
       then bind (tz_localize_UTC result) (\<lambda>r. tz_convert r tz)
       else Inr result)))))))"

text \<open>
  \<open>decode\<close> is the object hook of the unpacker: it receives a dict and dispatches on
  its \<open>typ\<close> field. Constructors and parsers that are not modelled above are calls to
  the environment.
\<close>

definition decode :: "env \<Rightarrow> (string \<times> pyobj) list \<Rightarrow> pyerr + pyobj" where
  "decode E obj =
     (let typ = dict_get obj ''typ'' in
      if typ = PNone then Inr (PDict obj)
      else if typ = PStr ''timestamp'' then
        bind (if map_of obj ''freq'' \<noteq> None then dict_item obj ''freq''
              else dict_item obj ''offset'') (\<lambda>freq.
        bind (dict_item obj ''value'') (\<lambda>v.
        bind (dict_item obj ''tz'') (\<lambda>tz.
          Inr (Timestamp v tz freq))))
      else if typ = PStr ''nat'' then Inr NaT
      else if typ = PStr ''period'' then
        bind (dict_item obj ''ordinal'') (\<lambda>ordinal.
        bind (dict_item obj ''freq'') (\<lambda>freq.
          Inr (Period ordinal freq)))
      else if typ = PStr ''index'' then
        bind (dict_item obj ''dtype'') (\<lambda>dn.
        bind (dict_item obj ''data'') (\<lambda>dat.
        bind (unconvert_as E dat (dtype_for dn) (dict_get obj ''compress'')) (\<lambda>data.
        bind (dict_item obj ''klass'') (\<lambda>k.
        bind (globals_lookup k) (\<lambda>k'.
        bind (dict_item obj ''name'') (\<lambda>name.
          construct E k' [data, dn, name]))))))
      else if typ = PStr ''range_index'' then
        bind (dict_item obj ''klass'') (\<lambda>k.
        bind (globals_lookup k) (\<lambda>k'.
        bind (dict_item obj ''start'') (\<lambda>start.
        bind (dict_item obj ''stop'') (\<lambda>stop.
        bind (dict_item obj ''step'') (\<lambda>step.
        bind (dict_item obj ''name'') (\<lambda>name.
          construct E k' [start, stop, step, name]))))))
      else if typ = PStr ''multi_index'' then
        bind (dict_item obj ''dtype'') (\<lambda>dn.
        bind (dict_item obj ''data'') (\<lambda>dat.
        bind (unconvert_as E dat (dtype_for dn) (dict_get obj ''compress'')) (\<lambda>data.
        bind (array_rows data) (\<lambda>rows.
        bind (map_result (tuple_of E) rows) (\<lambda>tuples.
        bind (dict_item obj ''klass'') (\<lambda>k.
        bind (globals_lookup k) (\<lambda>k'.
        bind (dict_item obj ''names'') (\<lambda>names.
          extern E ''from_tuples'' [k', PList tuples, names]))))))))
      else if typ = PStr ''period_index'' then decode_period_index E obj
      else if typ = PStr ''datetime_index'' then decode_datetime_index E obj
      else if typ = PStr ''category'' then
        bind (dict_item obj ''klass'') (\<lambda>k.
        bind (globals_lookup k) (\<lambda>k'.
        bind (dict_item obj ''codes'') (\<lambda>codes.
        bind (dict_item obj ''categories'') (\<lambda>cats.
        bind (dict_item obj ''ordered'') (\<lambda>ord.
          extern E ''from_codes'' [k', codes, cats, ord])))))
      else if typ = PStr ''series'' then
        bind (dict_item obj ''dtype'') (\<lambda>dn.
        bind (if dtype_for dn = None then Inl (TypeError ''data type not understood'')
              else Inr dn) (\<lambda>pd_dtype.
        bind (dict_item obj ''index'') (\<lambda>index.
        bind (dict_item obj ''klass'') (\<lambda>k.
        bind (globals_lookup k) (\<lambda>k'.
        bind (dict_item obj ''data'') (\<lambda>dat.
        bind (dict_item obj ''compress'') (\<lambda>c.
        bind (unconvert_as E dat (dtype_for dn) c) (\<lambda>data.
        bind (dict_item obj ''name'') (\<lambda>name.
          construct E k' [data, index, pd_dtype, name])))))))))
      else if typ = PStr ''block_manager'' then decode_block_manager E obj
      else if typ = PStr ''datetime'' then
        bind (dict_item obj ''data'') (\<lambda>s. extern E ''parse'' [s])
      else if typ = PStr ''datetime64'' then
        bind (dict_item obj ''data'') (\<lambda>s.
        bind (extern E ''parse'' [s]) (\<lambda>d. extern E ''np.datetime64'' [d]))
      else if typ = PStr ''date'' then
        bind (dict_item obj ''data'') (\<lambda>s.
        bind (extern E ''parse'' [s]) (\<lambda>d. extern E ''datetime.date'' [d]))
      else if typ = PStr ''timedelta'' then
        bind (dict_item obj ''data'') (\<lambda>d. extern E ''timedelta'' [d])
      else if typ = PStr ''timedelta64'' then
        bind (dict_item obj ''data'') (\<lambda>d. extern E ''np.timedelta64'' [d])
      else if typ = PStr ''block_index'' then
        bind (dict_item obj ''klass'') (\<lambda>k.
        bind (globals_lookup k) (\<lambda>k'.
        bind (dict_item obj ''length'') (\<lambda>n.
        bind (dict_item obj ''blocs'') (\<lambda>blocs.
        bind (dict_item obj ''blengths'') (\<lambda>blengths.
          construct E k' [n, blocs, blengths])))))
      else if typ = PStr ''int_index'' then
        bind (dict_item obj ''klass'') (\<lambda>k.
        bind (globals_lookup k) (\<lambda>k'.
        bind (dict_item obj ''length'') (\<lambda>n.
        bind (dict_item obj ''indices'') (\<lambda>indices.
          construct E k' [n, indices]))))
      else if typ = PStr ''ndarray'' then
        bind (dict_item obj ''data'') (\<lambda>dat.
        bind (dict_item obj ''dtype'') (\<lambda>dn.
        bind (case map_of np_typeDict dn of None \<Rightarrow> Inl (KeyError ''dtype'')
              | Some d \<Rightarrow> Inr d) (\<lambda>d.
        bind (snd (unconvert E dat d (dict_get obj ''compress''))) (\<lambda>arr.
        bind (dict_item obj ''shape'') (\<lambda>shp.
          reshape arr shp)))))
      else if typ = PStr ''np_scalar'' then
        (if dict_get obj ''sub_typ'' = PStr ''np_complex'' then
           bind (dict_item obj ''real'') (\<lambda>re.
           bind (dict_item obj ''imag'') (\<lambda>im.
           bind (dict_item obj ''dtype'') (\<lambda>dn.
             extern E ''c2f'' [re, im, dn])))
         else
           bind (dict_item obj ''dtype'') (\<lambda>dn.
           bind (dict_item obj ''data'') (\<lambda>dat.
             extern E ''np_scalar'' [dn, dat])))
      else if typ = PStr ''np_complex'' then
        bind (dict_item obj ''real'') (\<lambda>re.
        bind (str_add re (PStr ''+'')) (\<lambda>a.
        bind (dict_item obj ''imag'') (\<lambda>im.
        bind (str_add a im) (\<lambda>b.
        bind (str_add b (PStr ''j'')) (\<lambda>c.
          case c of PStr s \<Rightarrow> complex_from_string s
          | x \<Rightarrow> Inl (TypeError ''complex() argument''))))))
      else Inr (PDict obj))"

text \<open>
  The objects the concrete runs below encode and decode.
\<close>

definition range_index_0_10 :: pyobj where
  "range_index_0_10 =
     Instance [Cls_RangeIndex, Cls_Int64Index, Cls_Index]
       [(''name'', PNone), (''start'', PInt 0), (''stop'', PInt 10), (''step'', PInt 1)]"



definition period_record :: "pyobj \<Rightarrow> (string \<times> pyobj) list" where
  "period_record freq =
     [(''typ'', PStr ''period_index''), (''klass'', PStr ''PeriodIndex''),
      (''name'', PNone), (''freq'', freq), (''dtype'', PStr ''period[M]''),
      (''data'', ExtType 0 [1, 0, 0, 0, 0, 0, 0, 0]), (''compress'', PNone)]"

definition tz_block_record :: "(string \<times> pyobj) list" where
  "tz_block_record =
     [(''locs'', Ndarray Int64 [1] [0, 0, 0, 0, 0, 0, 0, 0]),
      (''values'', ExtType 0 [0, 0, 0, 0, 0, 0, 0, 0]),
      (''shape'', PTuple [PInt 1]),
      (''dtype'', PStr ''datetime64[ns, UTC]''),
      (''klass'', PStr ''DatetimeTZBlock''),
      (''compress'', PNone)]"

definition tz_frame_record :: "(string \<times> pyobj) list" where
  "tz_frame_record =
     [(''typ'', PStr ''block_manager''), (''klass'', PStr ''DataFrame''),
      (''axes'', PList []), (''blocks'', PList [PDict tz_block_record])]"

section \<open>Round trips\<close>













section \<open>Properties of the value converter\<close>

lemma call_decompress_bytes [simp]: "call_decompress f (PBytes b) = f b"
  by (simp add: call_decompress_def)

lemma frombuffer_bytes [simp]:
  "frombuffer (PBytes b) d =
     (if is_object_dtype d \<or> is_categorical_dtype d
      then Inl (ValueError ''cannot create an OBJECT array from memory buffer'')
      else if length b mod itemsize d \<noteq> 0
      then Inl (ValueError ''buffer size must be a multiple of element size'')
      else Inr (Ndarray d [length b div itemsize d] b))"
  by (simp add: frombuffer_def)




lemma discover_shape_scalar: "\<not> is_seq x \<Longrightarrow> discover_shape x = []"
  by (cases x) simp_all

lemma foldl_common_prefix_Nil: "foldl common_prefix [] ss = []"
  by (induction ss) simp_all

lemma common_dims_scalars:
  "list_all (\<lambda>x. \<not> is_seq x) xs \<Longrightarrow> common_dims (map discover_shape xs) = []"
  by (cases xs) (simp_all add: discover_shape_scalar foldl_common_prefix_Nil)





text \<open>
  C4. For every object-dtype array and every compression choice, \<open>convert\<close> returns the
  list of the array's cells in order, never an \<open>ExtType\<close> payload; the result does not
  depend on the environment's compressors. \<open>unconvert\<close> with the object dtype rebuilds
  the array from that list directly, by \<open>np.array(values, dtype=object)\<close>: no warning,
  no decompression, no reinterpretation of memory, whatever the \<open>compress\<close> field says.
\<close>

theorem C4_object_arrays_are_lists:
  "convert E compressor (NdarrayObj sh xs) = Inr (PList xs)
   \<and> unconvert E (PList xs) Object compress = ([], Inr (np_array_object (PList xs)))"
  by (simp add: convert_def unconvert_def bind_def)

theorem C4_witness:
  "convert test_env (Some ''zlib'') (NdarrayObj [2] [PStr ''a'', PNone]) = Inr (PList [PStr ''a'', PNone])
   \<and> unconvert test_env (PList [PStr ''a'', PNone]) Object (PStr ''zlib'')
     = ([], Inr (NdarrayObj [2] [PStr ''a'', PNone]))"
  using C4_object_arrays_are_lists[of test_env "Some ''zlib''" "[2]" "[PStr ''a'', PNone]" "PStr ''zlib''"]
  by simp




lemma unconvert_ext_zlib:
  assumes "\<not> is_categorical_dtype d" and "\<not> is_object_dtype d"
    and "zlib_installed E" and "zlib_decompress E payload = Inr dat"
  shows "unconvert E (ExtType 0 payload) d (PStr ''zlib'')
         = (if \<not> move_succeeds E dat \<and> length dat > 1 then [PerformanceWarning] else [],
            frombuffer (PBytes dat) (pandas_dtype_base d))"
  using assms by (simp add: unconvert_def bind_def check_zlib_def Let_def)

lemma unconvert_ext_blosc:
  assumes "\<not> is_categorical_dtype d" and "\<not> is_object_dtype d"
    and "blosc_installed E" and "blosc_decompress E payload = Inr dat"
  shows "unconvert E (ExtType 0 payload) d (PStr ''blosc'')
         = (if \<not> move_succeeds E dat \<and> length dat > 1 then [PerformanceWarning] else [],
            frombuffer (PBytes dat) (pandas_dtype_base d))"
  using assms by (simp add: unconvert_def bind_def check_blosc_def Let_def)

text \<open>
  C8, as stated, fails: with one decompressed byte the move fails and the bytes are
  copied, yet no warning is issued.
\<close>

theorem C8_counterexample:
  "zlib_decompress test_env [7] = Inr [7] \<and> \<not> move_succeeds test_env [7]
   \<and> unconvert test_env (ExtType 0 [7]) Int8 (PStr ''zlib'') = ([], Inr (Ndarray Int8 [1] [7]))"
  using unconvert_ext_zlib[of Int8 test_env "[7]" "[7]"]
  by (simp add: test_env_def)

text \<open>
  C8, amended. When the move of the decompressed bytes into a mutable buffer fails,
  \<open>unconvert\<close> issues a \<open>PerformanceWarning\<close> exactly when more than one byte was
  decompressed (at most one byte is copied silently), and in either case returns what
  \<open>np.frombuffer\<close> makes of the decompressed bytes: the same value as when the move
  succeeds.
\<close>

theorem C8_forced_copy_warning:
  assumes "\<not> is_categorical_dtype d" and "\<not> is_object_dtype d"
    and "compress = PStr ''zlib'' \<and> zlib_installed E \<and> zlib_decompress E payload = Inr dat
         \<or> compress = PStr ''blosc'' \<and> blosc_installed E \<and> blosc_decompress E payload = Inr dat"
    and "\<not> move_succeeds E dat"
  shows "unconvert E (ExtType 0 payload) d compress
           = (if length dat > 1 then [PerformanceWarning] else [],
              frombuffer (PBytes dat) (pandas_dtype_base d))
         \<and> snd (unconvert E (ExtType 0 payload) d compress)
           = snd (unconvert (E\<lparr>move_succeeds := \<lambda>b. True\<rparr>) (ExtType 0 payload) d compress)"
  using assms(3)
proof
  assume a: "compress = PStr ''zlib'' \<and> zlib_installed E \<and> zlib_decompress E payload = Inr dat"
  then show ?thesis
    using unconvert_ext_zlib[OF assms(1,2), of E payload dat]
      unconvert_ext_zlib[OF assms(1,2), of "E\<lparr>move_succeeds := \<lambda>b. True\<rparr>" payload dat] assms(4)
    by simp
next
  assume a: "compress = PStr ''blosc'' \<and> blosc_installed E \<and> blosc_decompress E payload = Inr dat"
  then show ?thesis
    using unconvert_ext_blosc[OF assms(1,2), of E payload dat]
      unconvert_ext_blosc[OF assms(1,2), of "E\<lparr>move_succeeds := \<lambda>b. True\<rparr>" payload dat] assms(4)
    by simp
qed

theorem C8_witness:
  "\<not> move_succeeds test_env [1, 2] \<and>
   unconvert test_env (ExtType 0 [2, 1]) Int16 (PStr ''blosc'')
     = ([PerformanceWarning], Inr (Ndarray Int16 [1] [1, 2]))"
  using C8_forced_copy_warning[of Int16 "PStr ''blosc''" test_env "[2, 1]" "[1, 2]"]
  by (simp add: test_env_def)

section \<open>Properties of \<open>encode\<close> and \<open>decode\<close>\<close>

text \<open>
  C9. For every ranged index, whatever the compression choice, the record that \<open>encode\<close>
  produces has exactly the keys \<open>typ\<close>, \<open>klass\<close>, \<open>name\<close>, \<open>start\<close>, \<open>stop\<close> and
  \<open>step\<close>, holding the tag, the class name and the four attributes read from the index:
  there is no \<open>data\<close> and no \<open>compress\<close> field, and \<open>convert\<close> is not called.
\<close>

theorem C9_range_index_record:
  assumes "isinstance obj Cls_Index" and "isinstance obj Cls_RangeIndex"
  shows "encode E compressor obj
           = Inr (PDict [(''typ'', PStr ''range_index''),
                         (''klass'', PStr (klass_name obj)),
                         (''name'', getattr_default obj ''name'' PNone),
                         (''start'', getattr_default obj ''start'' PNone),
                         (''stop'', getattr_default obj ''stop'' PNone),
                         (''step'', getattr_default obj ''step'' PNone)])
         \<and> (\<forall>d. encode E compressor obj = Inr (PDict d)
                \<longrightarrow> map_of d ''data'' = None \<and> map_of d ''compress'' = None
                    \<and> map fst d = [''typ'', ''klass'', ''name'', ''start'', ''stop'', ''step''])"
  using assms by (simp add: encode_def encode_index_def)

theorem C9_witness:
  "encode test_env (Some ''zlib'') range_index_0_10
     = Inr (PDict [(''typ'', PStr ''range_index''), (''klass'', PStr ''RangeIndex''),
                   (''name'', PNone), (''start'', PInt 0), (''stop'', PInt 10), (''step'', PInt 1)])"
  using C9_range_index_record[of range_index_0_10 test_env "Some ''zlib''"]
  by (simp add: range_index_0_10_def isinstance_def getattr_default_def klass_name_def)

lemma getattr_err: "getattr obj a \<noteq> Inl Exception_cannot_encode"
  by (cases obj) (simp_all split: option.splits)

lemma dtype_name_of_err: "dtype_name_of obj \<noteq> Inl Exception_cannot_encode"
  by (cases obj) (simp_all add: getattr_err split: option.splits)

lemma shape_of_err: "shape_of obj \<noteq> Inl Exception_cannot_encode"
  by (cases obj) (simp_all add: getattr_err split: option.splits)

lemma dtype_of_err: "dtype_of obj \<noteq> Inl Exception_cannot_encode"
  by (cases obj) simp_all

lemma if_ne: "\<lbrakk>c \<Longrightarrow> a \<noteq> e; \<not> c \<Longrightarrow> b \<noteq> e\<rbrakk> \<Longrightarrow> (if c then a else b) \<noteq> e"
  by simp

lemma bind_ne: "\<lbrakk>m \<noteq> Inl e; \<And>x. f x \<noteq> Inl e\<rbrakk> \<Longrightarrow> bind m f \<noteq> Inl e"
  by (cases m) (simp_all add: bind_def)

lemma Inr_ne: "Inr x \<noteq> Inl e"
  by simp

lemma check_zlib_err: "check_zlib E \<noteq> Inl Exception_cannot_encode"
  by (simp add: check_zlib_def)

lemma check_blosc_err: "check_blosc E \<noteq> Inl Exception_cannot_encode"
  by (simp add: check_blosc_def)

lemma convert_err: "convert E c v \<noteq> Inl Exception_cannot_encode"
  unfolding convert_def Let_def
  by (intro if_ne bind_ne Inr_ne dtype_of_err check_zlib_err check_blosc_err)

lemma tz_convert_err: "tz_convert obj z \<noteq> Inl Exception_cannot_encode"
  by (cases "(obj, z)" rule: tz_convert.cases) (simp_all split: option.splits)

lemma real_repr_err: "real_repr obj \<noteq> Inl Exception_cannot_encode"
  by (cases obj) (simp_all add: getattr_err split: option.splits)

lemma imag_repr_err: "imag_repr obj \<noteq> Inl Exception_cannot_encode"
  by (cases obj) (simp_all add: getattr_err split: option.splits)

lemmas no_cannot_encode = getattr_err dtype_name_of_err shape_of_err convert_err tz_convert_err
  real_repr_err imag_repr_err

lemma encode_index_err: "encode_index E c obj \<noteq> Inl Exception_cannot_encode"
  unfolding encode_index_def Let_def
  by (intro if_ne bind_ne Inr_ne no_cannot_encode)

lemma encode_block_err: "encode_block E c b \<noteq> Inl Exception_cannot_encode"
  unfolding encode_block_def
  by (intro if_ne bind_ne Inr_ne no_cannot_encode)

lemma map_result_err:
  assumes "\<And>x. f x \<noteq> Inl e"
  shows "map_result f xs \<noteq> Inl e"
  using assms by (induction xs) (auto split: sum.splits)

lemma encode_ndframe_err: "encode_ndframe E c obj \<noteq> Inl Exception_cannot_encode"
  unfolding encode_ndframe_def
  by (intro if_ne bind_ne Inr_ne no_cannot_encode map_result_err encode_block_err)

lemma encode_datetimelike_reached:
  assumes "isinstance obj Cls_datetime \<or> isinstance obj Cls_date
           \<or> isinstance obj Cls_datetime64 \<or> isinstance obj Cls_timedelta
           \<or> isinstance obj Cls_timedelta64 \<or> isinstance obj Cls_NaTType"
  shows "encode_datetimelike obj \<noteq> Inl Exception_cannot_encode"
  unfolding encode_datetimelike_def
  apply (intro if_ne bind_ne Inr_ne no_cannot_encode)
  using assms by blast

lemma encode_never_cannot_encode: "encode E c obj \<noteq> Inl Exception_cannot_encode"
  unfolding encode_def
  by (intro if_ne bind_ne Inr_ne no_cannot_encode encode_index_err encode_ndframe_err
      encode_datetimelike_reached)

text \<open>
  C7, as stated, fails: the claim has an input reach the raising branch, and no input
  does, whatever classes it is an instance of and whatever its attributes.
\<close>

theorem C7_counterexample:
  "\<not> (\<exists>E c obj. encode E c obj = Inl Exception_cannot_encode)"
  using encode_never_cannot_encode by blast

text \<open>
  C7, amended. The branch behind the temporal guard ends in a raise of "cannot encode"
  for an object that is an instance of none of \<open>Timestamp\<close>, \<open>NaTType\<close>,
  \<open>np.timedelta64\<close>, \<open>timedelta\<close>, \<open>np.datetime64\<close>, \<open>datetime\<close> and \<open>date\<close>. Every
  object that passes the guard is an instance of one of these, so for a temporal-like
  input \<open>encode\<close> answers with the branch of the first variant that matches and the raise
  is never reached.
\<close>

theorem C7_guard_is_exhaustive:
  assumes "\<not> isinstance obj Cls_Index" and "\<not> isinstance obj Cls_Categorical"
    and "\<not> isinstance obj Cls_Series" and "\<not> isinstance obj Cls_NDFrame"
    and "isinstance obj Cls_datetime \<or> isinstance obj Cls_date
         \<or> isinstance obj Cls_datetime64 \<or> isinstance obj Cls_timedelta
         \<or> isinstance obj Cls_timedelta64 \<or> isinstance obj Cls_NaTType"
  shows "encode E c obj = encode_datetimelike obj
         \<and> encode_datetimelike obj \<noteq> Inl Exception_cannot_encode
         \<and> (isinstance obj Cls_Timestamp \<or> isinstance obj Cls_NaTType
            \<or> isinstance obj Cls_timedelta64 \<or> isinstance obj Cls_timedelta
            \<or> isinstance obj Cls_datetime64 \<or> isinstance obj Cls_datetime
            \<or> isinstance obj Cls_date)
         \<and> (\<forall>o'. \<not> (isinstance o' Cls_Timestamp \<or> isinstance o' Cls_NaTType
                    \<or> isinstance o' Cls_timedelta64 \<or> isinstance o' Cls_timedelta
                    \<or> isinstance o' Cls_datetime64 \<or> isinstance o' Cls_datetime
                    \<or> isinstance o' Cls_date)
                \<longrightarrow> encode_datetimelike o' = Inl Exception_cannot_encode)"
proof -
  have "encode E c obj = encode_datetimelike obj"
    using assms by (simp add: encode_def)
  moreover have "\<And>o'. \<not> (isinstance o' Cls_Timestamp \<or> isinstance o' Cls_NaTType
                    \<or> isinstance o' Cls_timedelta64 \<or> isinstance o' Cls_timedelta
                    \<or> isinstance o' Cls_datetime64 \<or> isinstance o' Cls_datetime
                    \<or> isinstance o' Cls_date)
                \<Longrightarrow> encode_datetimelike o' = Inl Exception_cannot_encode"
    by (simp add: encode_datetimelike_def)
  ultimately show ?thesis
    using encode_datetimelike_reached[OF assms(5)] assms(5) by blast
qed

theorem C7_witness:
  "encode test_env None NaT = Inr (PDict [(''typ'', PStr ''nat'')])"
  using C7_guard_is_exhaustive[of NaT test_env None]
  by (simp add: NaT_def isinstance_def encode_datetimelike_def)






lemma bind_isl: "isl m \<Longrightarrow> isl (bind m f)"
  by (cases m) (simp_all add: bind_def)

lemma bind_isl2: "(\<And>x. m = Inr x \<Longrightarrow> isl (f x)) \<Longrightarrow> isl (bind m f)"
  by (cases m) (simp_all add: bind_def)

lemma map_result_ordinals:
  "map_result ordinal_of (map (\<lambda>x. Period (PInt x) freq) xs) = Inr xs"
  by (induction xs) (simp_all add: Period_def)

lemma PeriodIndex_of_periods:
  assumes "xs \<noteq> []"
  shows "PeriodIndex (map (\<lambda>x. Period (PInt x) (PStr f)) xs)
         = Inr (Instance [Cls_PeriodIndex, Cls_Index]
                  [(''name'', PNone), (''freqstr'', PStr f),
                   (''dtype.name'', PStr (''period['' @ f @ '']'')),
                   (''asi8'', Ndarray Int64 [length xs] (concat (map int64_bytes xs)))])"
proof (cases xs)
  case Nil
  with assms show ?thesis by simp
next
  case (Cons y ys)
  have "map_result ordinal_of (Period (PInt y) (PStr f) # map (\<lambda>x. Period (PInt x) (PStr f)) ys)
        = Inr (y # ys)"
    using map_result_ordinals[of "PStr f" "y # ys"] by simp
  with Cons show ?thesis
    by (simp add: bind_def Period_def del: map_result.simps ordinal_of.simps)
qed

lemma decode_period_index_eq:
  assumes "dict_get obj ''typ'' = PStr ''period_index''"
  shows "decode E obj = decode_period_index E obj"
  using assms by (simp add: decode_def)

lemma period_no_freq:
  assumes "\<not> is_pandas_legacy_version E"
    and "map_of obj ''freq'' = None \<or> map_of obj ''freq'' = Some PNone"
  shows "isl (decode_period_index E obj)"
  unfolding decode_period_index_def
  using assms
  by (auto simp: dict_item_def intro!: bind_isl2)

lemma period_with_freq:
  assumes "\<not> is_pandas_legacy_version E"
    and "map_of obj ''data'' = Some dat"
    and "snd (unconvert E dat Int64 (dict_get obj ''compress'')) = Inr data"
    and "map_of obj ''name'' = Some name" and "map_of obj ''freq'' = Some freq"
  shows "decode_period_index E obj
         = (if freq = PNone then Inl (ValueError ''freq is not specified and cannot be inferred'')
            else PeriodIndex (map (\<lambda>x. Period (PInt x) freq) (int64_items (tostring data))))"
  using assms
  by (simp add: decode_period_index_def dict_item_def bind_def unconvert_as_def)

lemma period_legacy:
  assumes "is_pandas_legacy_version E"
    and "map_of obj ''data'' = Some dat"
    and "snd (unconvert E dat Int64 (dict_get obj ''compress'')) = Inr data"
    and "map_of obj ''name'' = Some name" and "map_of obj ''freq'' = Some freq"
  shows "decode_period_index E obj = bind (dict_item obj ''klass'') (\<lambda>k. construct E k [data, name, freq])"
  using assms
  by (simp add: decode_period_index_def dict_item_def bind_def unconvert_as_def)

lemma map_result_isl:
  assumes "x \<in> set xs" and "isl (f x)"
  shows "isl (map_result f xs)"
  using assms by (induction xs) (auto split: sum.splits)

lemma create_block_tz:
  assumes "map_of bd ''klass'' = Some (PStr ''DatetimeTZBlock'')"
  shows "isl (create_block E axes (PDict bd))"
  unfolding create_block_def
  using assms
  by (auto simp: dict_item_def block_classes_def intro!: bind_isl2)

lemma create_block_tz_error:
  assumes "map_of bd ''klass'' = Some (PStr ''DatetimeTZBlock'')"
    and "map_of bd ''values'' = Some v" and "map_of bd ''dtype'' = Some dn"
    and "map_of bd ''compress'' = Some c" and "unconvert_as E v (dtype_for dn) c = Inr arr"
    and "map_of bd ''shape'' = Some shp" and "safe_reshape arr shp = Inr vals"
    and "map_of bd ''locs'' = Some locs"
  shows "create_block E axes (PDict bd)
         = Inl (ValueError ''Lost the ability to parse datetime with timezone. Sorry'')"
  using assms
  by (simp add: create_block_def dict_item_def bind_def block_classes_def)

lemma decode_block_manager_tz:
  assumes "dict_get obj ''typ'' = PStr ''block_manager''"
    and "map_of obj ''blocks'' = Some bs" and "PDict bd \<in> set (seq_items bs)"
    and "map_of bd ''klass'' = Some (PStr ''DatetimeTZBlock'')"
  shows "isl (decode E obj)"
proof -
  have d: "decode E obj = decode_block_manager E obj"
    using assms(1) by (simp add: decode_def)
  have ne: "map_result (create_block E axes) (seq_items bs) \<noteq> Inr y" for axes y
    using map_result_isl[of "PDict bd" "seq_items bs" "create_block E axes"]
      assms(3) create_block_tz[OF assms(4), of E axes] by auto
  show ?thesis
    unfolding d decode_block_manager_def
    using assms(2)
    by (auto simp: dict_item_def ne intro!: bind_isl2 split: if_splits)
qed

text \<open>
  C5. Decoding a \<open>period_index\<close> record with a current pandas: when the \<open>freq\<close> field is
  absent or \<open>None\<close>, \<open>decode\<close> raises, and once the data and the name have been read the
  error is the \<open>ValueError\<close> "freq is not specified and cannot be inferred"; no index is
  produced. When the field holds a frequency, the index is built from one period per
  ordinal of the data, each with that frequency. With a legacy pandas the record's
  fields, the frequency among them, are handed to the class's constructor instead.
\<close>

theorem C5_period_index_frequency:
  assumes "dict_get obj ''typ'' = PStr ''period_index''"
  shows "(\<not> is_pandas_legacy_version E
            \<and> (map_of obj ''freq'' = None \<or> map_of obj ''freq'' = Some PNone)
          \<longrightarrow> isl (decode E obj))
       \<and> (map_of obj ''data'' = Some dat
            \<and> snd (unconvert E dat Int64 (dict_get obj ''compress'')) = Inr data
            \<and> map_of obj ''name'' = Some name \<and> map_of obj ''freq'' = Some freq
          \<longrightarrow> decode E obj
              = (if is_pandas_legacy_version E
                 then bind (dict_item obj ''klass'') (\<lambda>k. construct E k [data, name, freq])
                 else if freq = PNone
                 then Inl (ValueError ''freq is not specified and cannot be inferred'')
                 else PeriodIndex (map (\<lambda>x. Period (PInt x) freq) (int64_items (tostring data)))))
       \<and> (xs \<noteq> [] \<longrightarrow>
            PeriodIndex (map (\<lambda>x. Period (PInt x) (PStr f)) xs)
            = Inr (Instance [Cls_PeriodIndex, Cls_Index]
                     [(''name'', PNone), (''freqstr'', PStr f),
                      (''dtype.name'', PStr (''period['' @ f @ '']'')),
                      (''asi8'', Ndarray Int64 [length xs] (concat (map int64_bytes xs)))]))"
  using decode_period_index_eq[OF assms, of E] period_no_freq[of E obj]
    period_with_freq[of E obj dat data name freq] period_legacy[of E obj dat data name freq]
    PeriodIndex_of_periods[of xs f]
  by auto

theorem C5_witness:
  "decode test_env (period_record PNone)
     = Inl (ValueError ''freq is not specified and cannot be inferred'')
   \<and> decode test_env (period_record (PStr ''M''))
     = PeriodIndex [Period (PInt 1) (PStr ''M'')]"
  using C5_period_index_frequency[where obj = "period_record PNone" and E = test_env
      and dat = "ExtType 0 [1, 0, 0, 0, 0, 0, 0, 0]"
      and data = "Ndarray Int64 [1] [1, 0, 0, 0, 0, 0, 0, 0]" and name = PNone and freq = PNone]
    C5_period_index_frequency[where obj = "period_record (PStr ''M'')" and E = test_env
      and dat = "ExtType 0 [1, 0, 0, 0, 0, 0, 0, 0]"
      and data = "Ndarray Int64 [1] [1, 0, 0, 0, 0, 0, 0, 0]" and name = PNone
      and freq = "PStr ''M''"]
  by (simp add: period_record_def dict_get_def test_env_def unconvert_def
      del: PeriodIndex.simps)

text \<open>
  C6. When a block record of a \<open>block_manager\<close> record names the class
  \<open>DatetimeTZBlock\<close>, \<open>create_block\<close> fails on that record for every environment, so no
  block is made from its payload, and \<open>decode\<close> of the whole record fails. When the
  payload, the shape and the placement of that record are in order, the failure is the
  \<open>ValueError\<close> raised at the class test, which stands before the call of \<open>make_block\<close>.
\<close>

theorem C6_tz_block_fails_fast:
  assumes "dict_get obj ''typ'' = PStr ''block_manager''"
    and "map_of obj ''blocks'' = Some bs" and "PDict bd \<in> set (seq_items bs)"
    and "map_of bd ''klass'' = Some (PStr ''DatetimeTZBlock'')"
  shows "isl (decode E obj)
       \<and> isl (create_block E axes (PDict bd))
       \<and> (map_of bd ''values'' = Some v \<and> map_of bd ''dtype'' = Some dn
          \<and> map_of bd ''compress'' = Some c \<and> unconvert_as E v (dtype_for dn) c = Inr arr
          \<and> map_of bd ''shape'' = Some shp \<and> safe_reshape arr shp = Inr vals
          \<and> map_of bd ''locs'' = Some locs
          \<longrightarrow> create_block E axes (PDict bd)
              = Inl (ValueError ''Lost the ability to parse datetime with timezone. Sorry''))"
  using decode_block_manager_tz[OF assms, of E] create_block_tz[OF assms(4), of E axes]
    create_block_tz_error[OF assms(4), of v dn c E arr shp vals locs axes]
  by blast

theorem C6_witness:
  "isl (decode test_env tz_frame_record)
   \<and> create_block test_env (PList []) (PDict tz_block_record)
     = Inl (ValueError ''Lost the ability to parse datetime with timezone. Sorry'')"
  using C6_tz_block_fails_fast[where obj = tz_frame_record and E = test_env
      and bs = "PList [PDict tz_block_record]" and bd = tz_block_record
      and axes = "PList []" and v = "ExtType 0 [0, 0, 0, 0, 0, 0, 0, 0]"
      and dn = "PStr ''datetime64[ns, UTC]''" and c = PNone
      and arr = "Ndarray (Datetime64 NS) [1] [0, 0, 0, 0, 0, 0, 0, 0]"
      and shp = "PTuple [PInt 1]"
      and vals = "Ndarray (Datetime64 NS) [1] [0, 0, 0, 0, 0, 0, 0, 0]"
      and locs = "Ndarray Int64 [1] [0, 0, 0, 0, 0, 0, 0, 0]"]
  by (simp add: tz_frame_record_def tz_block_record_def dict_get_def unconvert_as_def
      unconvert_def dtype_for_def dtype_dict_def np_typeDict_def parse_tz_dtype_def
      safe_reshape_def isinstance_def)


lemma not_digit [simp]:
  "\<not> is_digit CHR ''+''" "\<not> is_digit CHR ''-''" "\<not> is_digit CHR ''j''" "\<not> is_digit CHR ''.''"
  "\<not> is_digit CHR ''e''" "\<not> is_digit CHR ''i''" "\<not> is_digit CHR ''n''"
  by (simp_all add: is_digit_def)





lemma lower_stop: "c = CHR ''+'' \<or> c = CHR ''j'' \<Longrightarrow> lower c = c"
  by (auto simp: lower_def)






































lemma discover_shape_tuple:
  "list_all (\<lambda>x. \<not> is_seq x) t \<Longrightarrow> discover_shape (PTuple t) = [length t]"
  by (simp add: common_dims_scalars)

























end
